theory Spec2Isabelle
  imports Main "HOL-Library.AList"
begin

section \<open>JavaScript strings\<close>

text \<open>
  A JavaScript string is a sequence of UTF-16 code units. The model covers the strings
  whose code units are all below 256 and writes one \<^typ>\<open>char\<close> per code unit, so
  \<^const>\<open>length\<close> is the JavaScript \<^verbatim>\<open>length\<close> and a literal such as \<open>''#''\<close> is the
  JavaScript literal.
\<close>

definition LF :: char where
  "LF = CHR 0x0A"

definition CR :: char where
  "CR = CHR 0x0D"

definition isWhiteSpace :: "char \<Rightarrow> bool" where
  \<comment> \<open>WhiteSpace and LineTerminator of ECMAScript, below 256: TAB, LF, VT, FF, CR, SP, NBSP.\<close>
  "isWhiteSpace c = (of_char c \<in> {9, 10, 11, 12, 13, 32, 160 :: nat})"

definition trim :: "string \<Rightarrow> string" where
  \<comment> \<open>\<^verbatim>\<open>s.trim()\<close>\<close>
  "trim s = rev (dropWhile isWhiteSpace (rev (dropWhile isWhiteSpace s)))"

definition startsWith :: "string \<Rightarrow> string \<Rightarrow> bool" where
  \<comment> \<open>\<^verbatim>\<open>s.startsWith(p)\<close>\<close>
  "startsWith s p = (take (length p) s = p)"

definition endsWith :: "string \<Rightarrow> string \<Rightarrow> bool" where
  \<comment> \<open>\<^verbatim>\<open>s.endsWith(p)\<close>\<close>
  "endsWith s p = (length p \<le> length s \<and> drop (length s - length p) s = p)"

fun includes_str :: "string \<Rightarrow> string \<Rightarrow> bool" where
  \<comment> \<open>\<^verbatim>\<open>s.includes(p)\<close>: \<open>p\<close> occurs in \<open>s\<close> at some position.\<close>
  "includes_str [] p = (p = [])"
| "includes_str (c # cs) p = (startsWith (c # cs) p \<or> includes_str cs p)"

fun splitLines :: "string \<Rightarrow> string list" where
  \<comment> \<open>\<^verbatim>\<open>s.split(/\r?\n/)\<close>: a separator is LF, or CR directly followed by LF.\<close>
  "splitLines [] = [[]]"
| "splitLines (c # cs) =
     (if c = LF then [] # splitLines cs
      else if c = CR \<and> cs \<noteq> [] \<and> hd cs = LF then [] # splitLines (tl cs)
      else (case splitLines cs of [] \<Rightarrow> [[c]] | l # ls \<Rightarrow> (c # l) # ls))"

fun join :: "string \<Rightarrow> string list \<Rightarrow> string" where
  \<comment> \<open>\<^verbatim>\<open>xs.join(sep)\<close>\<close>
  "join sep [] = []"
| "join sep [x] = x"
| "join sep (x # y # ys) = x @ sep @ join sep (y # ys)"

definition digit :: "nat \<Rightarrow> char" where
  "digit n = ''0123456789'' ! n"

fun dec :: "nat \<Rightarrow> string" where
  \<comment> \<open>\<^verbatim>\<open>String(n)\<close> for a non-negative integer: its decimal digits.\<close>
  "dec n = (if n < 10 then [digit n] else dec (n div 10) @ [digit (n mod 10)])"

declare dec.simps [simp del]

definition hexDigit :: "nat \<Rightarrow> char" where
  "hexDigit n = ''0123456789ABCDEF'' ! (n mod 16)"

definition toLowerChar :: "char \<Rightarrow> char" where
  "toLowerChar c =
     (let n = of_char c :: nat in if 65 \<le> n \<and> n \<le> 90 then char_of (n + 32) else c)"

definition toLowerCase :: "string \<Rightarrow> string" where
  "toLowerCase s = map toLowerChar s"

section \<open>Errors, headers and responses\<close>

text \<open>
  A thrown JavaScript error is a value: its \<^verbatim>\<open>name\<close> and its \<^verbatim>\<open>message\<close>. A function that
  may throw returns \<open>js_error + 'a\<close>, with \<open>Inl\<close> for the error thrown.
\<close>

datatype js_error = JsError (name: string) (message: string)

type_synonym header_list = "(string \<times> string) list"

text \<open>
  A \<^verbatim>\<open>Response\<close>: the fields the workers read or set. The body is \<open>None\<close> for
  \<^verbatim>\<open>null\<close> and the text or bytes otherwise.
\<close>

record response =
  status :: nat
  statusText :: string
  headers :: header_list
  body :: "string option"

definition headers_get :: "header_list \<Rightarrow> string \<Rightarrow> string option" where
  \<comment> \<open>\<^verbatim>\<open>headers.get(name)\<close>: header names compare without case; \<open>None\<close> is \<^verbatim>\<open>null\<close>.\<close>
  "headers_get hs n = map_of (map (\<lambda>(k, v). (toLowerCase k, v)) hs) (toLowerCase n)"

fun headers_set :: "header_list \<Rightarrow> string \<Rightarrow> string \<Rightarrow> header_list" where
  \<comment> \<open>\<^verbatim>\<open>headers.set(key, value)\<close>: replaces the entry of that name, or appends one.\<close>
  "headers_set [] k v = [(k, v)]"
| "headers_set ((k', v') # hs) k v =
     (if toLowerCase k' = toLowerCase k then (k, v) # hs else (k', v') # headers_set hs k v)"

definition new_Response :: "string option \<Rightarrow> nat \<Rightarrow> header_list \<Rightarrow> response" where
  \<comment> \<open>\<^verbatim>\<open>new Response(body, { status, headers })\<close>\<close>
  "new_Response b st hs = \<lparr>status = st, statusText = [], headers = hs, body = b\<rparr>"

section \<open>The fetch client (src/utils/httpClient.js)\<close>

text \<open>
  The platform's \<^verbatim>\<open>fetch\<close> is a parameter: given the URL and the request headers it
  either completes with a response or rejects with an error (an \<^verbatim>\<open>AbortError\<close> when the
  timeout aborts the request, a \<^verbatim>\<open>TypeError\<close> on a network failure).
\<close>

type_synonym fetch_api = "string \<Rightarrow> header_list \<Rightarrow> js_error + response"

definition DEFAULT_HEADERS :: header_list where
  "DEFAULT_HEADERS =
     [(''User-Agent'', ''Mozilla/5.0 (Windows NT 10.0; Win64; x64) AppleWebKit/537.36 (KHTML, like Gecko) Chrome/120.0.0.0 Safari/537.36''),
      (''Accept'', ''*/*''),
      (''Accept-Language'', ''en-US,en;q=0.9''),
      (''Accept-Encoding'', ''gzip, deflate, br''),
      (''Connection'', ''keep-alive''),
      (''Cache-Control'', ''no-cache'')]"

definition requestHeaders :: "header_list option \<Rightarrow> header_list" where
  \<comment> \<open>The \<^verbatim>\<open>Headers\<close> object of the request: the defaults first, then \<^verbatim>\<open>options.headers\<close>
      (\<open>None\<close> when the options have none), which replace a default of the same name.\<close>
  "requestHeaders opt_headers =
     (let hs0 = fold (\<lambda>(k, v) hs. headers_set hs k v) DEFAULT_HEADERS [] in
      case opt_headers of
        None \<Rightarrow> hs0
      | Some custom \<Rightarrow> fold (\<lambda>(k, v) hs. headers_set hs k v) custom hs0)"

definition fetchWithConfig :: "fetch_api \<Rightarrow> string \<Rightarrow> header_list option \<Rightarrow> js_error + response" where
  "fetchWithConfig fetch url opt_headers =
     (case fetch url (requestHeaders opt_headers) of
        Inl error \<Rightarrow> Inl error
      | Inr resp \<Rightarrow>
          if status resp < 200 \<or> status resp \<ge> 400
          then Inl (JsError ''Error'' (''HTTP '' @ dec (status resp) @ '': '' @ statusText resp))
          else Inr resp)"

section \<open>The platform's URL class\<close>

text \<open>
  \<^verbatim>\<open>new URL(input, base)\<close> is the platform's, not the repository's: the functions below take
  it as a parameter \<open>URL\<close>. Its second argument is \<open>None\<close> when the call gives no base; it
  returns the properties the workers read, or the \<^verbatim>\<open>TypeError\<close> it throws.
\<close>

record url =
  href :: string
  origin :: string
  hostname :: string

type_synonym url_api = "string \<Rightarrow> string option \<Rightarrow> js_error + url"

definition ToString :: "string option \<Rightarrow> string" where
  \<comment> \<open>An argument the caller left out is \<^verbatim>\<open>undefined\<close>; the URL constructor reads it as a string.\<close>
  "ToString v = (case v of None \<Rightarrow> ''undefined'' | Some s \<Rightarrow> s)"

definition truthy :: "string option \<Rightarrow> bool" where
  \<comment> \<open>The truth value of a string or \<^verbatim>\<open>null\<close>/\<^verbatim>\<open>undefined\<close>: false for those and for the empty string.\<close>
  "truthy v = (case v of None \<Rightarrow> False | Some s \<Rightarrow> s \<noteq> [])"

subsection \<open>A model of the URL Standard for http and https\<close>


definition isAlpha :: "char \<Rightarrow> bool" where
  "isAlpha c = (let n = of_char c :: nat in (65 \<le> n \<and> n \<le> 90) \<or> (97 \<le> n \<and> n \<le> 122))"

definition isDigit :: "char \<Rightarrow> bool" where
  "isDigit c = (let n = of_char c :: nat in 48 \<le> n \<and> n \<le> 57)"






















section \<open>encodeURIComponent\<close>

definition isUnreserved :: "char \<Rightarrow> bool" where
  \<comment> \<open>The characters \<^verbatim>\<open>encodeURIComponent\<close> leaves as they are.\<close>
  "isUnreserved c = (isAlpha c \<or> isDigit c \<or> c \<in> set (''-_.!~*'' @ [CHR 0x27] @ ''()''))"

definition percentByte :: "nat \<Rightarrow> string" where
  "percentByte n = [CHR ''%'', hexDigit (n div 16), hexDigit n]"

definition encodeChar :: "char \<Rightarrow> string" where
  \<comment> \<open>One code unit below 256: kept, or the percent-escapes of its UTF-8 bytes.\<close>
  "encodeChar c =
     (let n = of_char c :: nat in
      if isUnreserved c then [c]
      else if n < 128 then percentByte n
      else percentByte (192 + n div 64) @ percentByte (128 + n mod 64))"

definition encodeURIComponent :: "string \<Rightarrow> string" where
  "encodeURIComponent s = concat (map encodeChar s)"

section \<open>The playlist rewriter (src/handlers/m3u8Handler.js)\<close>

text \<open>
  The \<^verbatim>\<open>for\<close> loop of \<^verbatim>\<open>processPlaylistContent\<close> runs over the state \<open>(i, out)\<close>: the cursor
  and the lines pushed so far. \<open>loop_body\<close> is one iteration together with the loop's
  \<^verbatim>\<open>i++\<close>; \<open>scan\<close> is the loop.
\<close>

record scan_state =
  idx :: nat
  out :: "string list"

definition streamReference :: "string \<Rightarrow> string \<Rightarrow> string" where
  "streamReference absUrl refUrl =
     ''/player/stream?url='' @ encodeURIComponent absUrl @ ''&ref='' @ encodeURIComponent refUrl"

definition segmentReference :: "string \<Rightarrow> string \<Rightarrow> string" where
  "segmentReference absUrl refUrl =
     ''/segment?url='' @ encodeURIComponent absUrl @ ''&ref='' @ encodeURIComponent refUrl"

definition loop_body :: "url_api \<Rightarrow> string \<Rightarrow> string \<Rightarrow> string list \<Rightarrow> scan_state \<Rightarrow> js_error + scan_state" where
  "loop_body URL baseForRelative refUrl lines s =
     (let line = trim (lines ! idx s) in
      if startsWith line ''#EXT-X-STREAM-INF'' then
        (let out1 = out s @ [line];
             i1 = idx s + 1;
             next = trim (if i1 < length lines then lines ! i1 else [])
         in if next = [] then Inr \<lparr>idx = i1 + 1, out = out1\<rparr>
            else (case URL next (Some baseForRelative) of
                    Inl e \<Rightarrow> Inl e
                  | Inr absUrl \<Rightarrow>
                      Inr \<lparr>idx = i1 + 1, out = out1 @ [streamReference (href absUrl) refUrl]\<rparr>))
      else if line \<noteq> [] \<and> \<not> startsWith line ''#'' then
        (case URL line (Some baseForRelative) of
           Inl e \<Rightarrow> Inl e
         | Inr absUrl \<Rightarrow> Inr \<lparr>idx = idx s + 1, out = out s @ [segmentReference (href absUrl) refUrl]\<rparr>)
      else Inr \<lparr>idx = idx s + 1, out = out s @ [line]\<rparr>)"

function scan :: "url_api \<Rightarrow> string \<Rightarrow> string \<Rightarrow> string list \<Rightarrow> scan_state \<Rightarrow> js_error + string list" where
  "scan URL baseForRelative refUrl lines s =
     (if idx s < length lines
      then (case loop_body URL baseForRelative refUrl lines s of
              Inl e \<Rightarrow> Inl e
            | Inr s' \<Rightarrow> scan URL baseForRelative refUrl lines s')
      else Inr (out s))"
  by pat_completeness auto
termination
  by (relation "measure (\<lambda>(URL, b, r, lines, s). length lines - idx s)")
     (auto simp: loop_body_def Let_def split: if_splits sum.splits)

declare scan.simps [simp del]



definition after_output :: "string list \<Rightarrow> js_error + string list \<Rightarrow> js_error + string list" where
  \<comment> \<open>The result of a scan that starts with \<open>pre\<close> already pushed, from the result of the same
      scan started with nothing pushed.\<close>
  "after_output pre res = (case res of Inl e \<Rightarrow> Inl e | Inr final \<Rightarrow> Inr (pre @ final))"

definition processPlaylistContent :: "url_api \<Rightarrow> string \<Rightarrow> string \<Rightarrow> string \<Rightarrow> js_error + string" where
  "processPlaylistContent URL playlistText m3u8Url refUrl =
     (case URL ''.'' (Some m3u8Url) of
        Inl e \<Rightarrow> Inl e
      | Inr base \<Rightarrow>
          (case scan URL (href base) refUrl (splitLines playlistText) \<lparr>idx = 0, out = []\<rparr> of
             Inl e \<Rightarrow> Inl e
           | Inr out' \<Rightarrow> Inr (join [LF] out')))"

section \<open>The segment handler (src/handlers/segmentHandler.js)\<close>

definition determineContentType :: "response \<Rightarrow> string \<Rightarrow> string" where
  "determineContentType resp segmentUrl =
     (let responseContentType = headers_get (headers resp) ''content-type'' in
      if truthy responseContentType then the responseContentType
      else if endsWith segmentUrl ''.ts'' then ''video/MP2T''
      else if endsWith segmentUrl ''.m4s'' then ''video/mp4''
      else if endsWith segmentUrl ''.webm'' then ''video/webm''
      else ''application/octet-stream'')"

definition createSegmentHeaders :: "string \<Rightarrow> header_list" where
  "createSegmentHeaders contentType =
     [(''Content-Type'', contentType),
      (''Cache-Control'', ''public, max-age=3600''),
      (''Accept-Ranges'', ''bytes'')]"

section \<open>JSON.stringify\<close>

datatype json =
  JString string
| JNumber nat
| JArray "json list"
| JObject "(string \<times> json) list"

definition escapeChar :: "char \<Rightarrow> string" where
  \<comment> \<open>QuoteJSONString on one code unit below 256.\<close>
  "escapeChar c =
     (let n = of_char c :: nat in
      if c = CHR 0x22 then [CHR 0x5C, CHR 0x22]
      else if c = CHR 0x5C then [CHR 0x5C, CHR 0x5C]
      else if n = 8 then [CHR 0x5C, CHR ''b'']
      else if n = 9 then [CHR 0x5C, CHR ''t'']
      else if n = 10 then [CHR 0x5C, CHR ''n'']
      else if n = 12 then [CHR 0x5C, CHR ''f'']
      else if n = 13 then [CHR 0x5C, CHR ''r'']
      else if n < 32 then [CHR 0x5C, CHR ''u'', CHR ''0'', CHR ''0'',
                           ''0123456789abcdef'' ! (n div 16), ''0123456789abcdef'' ! (n mod 16)]
      else [c])"

definition quoteJSONString :: "string \<Rightarrow> string" where
  "quoteJSONString s = [CHR 0x22] @ concat (map escapeChar s) @ [CHR 0x22]"

fun JSON_stringify :: "json \<Rightarrow> string"
  and stringify_elements :: "json list \<Rightarrow> string list"
  and stringify_members :: "(string \<times> json) list \<Rightarrow> string list" where
  "JSON_stringify (JString s) = quoteJSONString s"
| "JSON_stringify (JNumber n) = dec n"
| "JSON_stringify (JArray vs) = ''['' @ join '','' (stringify_elements vs) @ '']''"
| "JSON_stringify (JObject kvs) = ''{'' @ join '','' (stringify_members kvs) @ ''}''"
| "stringify_elements [] = []"
| "stringify_elements (v # vs) = JSON_stringify v # stringify_elements vs"
| "stringify_members [] = []"
| "stringify_members ((k, v) # kvs) =
     (quoteJSONString k @ '':'' @ JSON_stringify v) # stringify_members kvs"

section \<open>Proxy headers and error responses (src/utils/httpClient.js)\<close>

definition createProxyHeaders :: "url_api \<Rightarrow> string option \<Rightarrow> string option \<Rightarrow> js_error + header_list" where
  \<comment> \<open>Each argument is \<open>None\<close> when the call leaves it out. \<^verbatim>\<open>'Referer': refUrl\<close> keeps the value
      given (\<open>the refUrl\<close>: a call without it has thrown in the line before).\<close>
  "createProxyHeaders URL refUrl targetUrl =
     (case URL (ToString refUrl) None of
        Inl e \<Rightarrow> Inl e
      | Inr refUrlObj \<Rightarrow>
          (case URL (ToString targetUrl) None of
             Inl e \<Rightarrow> Inl e
           | Inr targetUrlObj \<Rightarrow>
               Inr [(''Referer'', the refUrl),
                    (''Origin'', origin refUrlObj),
                    (''Host'', hostname targetUrlObj),
                    (''Sec-Fetch-Dest'', ''empty''),
                    (''Sec-Fetch-Mode'', ''cors''),
                    (''Sec-Fetch-Site'', ''cross-site'')]))"

definition httpErrorStatus :: "js_error \<Rightarrow> nat" where
  \<comment> \<open>The \<^verbatim>\<open>statusCode\<close> that \<^verbatim>\<open>createHttpErrorResponse\<close> computes.\<close>
  "httpErrorStatus error =
     (if name error = ''AbortError'' then 408
      else if includes_str (message error) ''HTTP 403'' then 403
      else if includes_str (message error) ''HTTP 404'' then 404
      else if includes_str (message error) ''HTTP 429'' then 429
      else if includes_str (message error) ''HTTP 502'' \<or> includes_str (message error) ''HTTP 503'' then 502
      else 500)"

definition createHttpErrorResponse :: "string \<Rightarrow> js_error \<Rightarrow> string \<Rightarrow> response" where
  \<comment> \<open>\<open>now\<close> is what \<^verbatim>\<open>new Date().toISOString()\<close> returns at the call.\<close>
  "createHttpErrorResponse now error operation =
     (let statusCode = httpErrorStatus error in
      new_Response
        (Some (JSON_stringify (JObject
           [(''error'', JString (''Failed to '' @ operation)),
            (''message'', JString (message error)),
            (''status'', JNumber statusCode),
            (''timestamp'', JString now)])))
        statusCode
        [(''Content-Type'', ''application/json''),
         (''Access-Control-Allow-Origin'', ''*'')])"

section \<open>URL utilities (src/utils/urlUtils.js)\<close>

definition parseUrl :: "url_api \<Rightarrow> string \<Rightarrow> js_error + url" where
  "parseUrl URL input =
     (case URL input None of
        Inl error \<Rightarrow> Inl (JsError ''Error'' (''Invalid URL: '' @ input))
      | Inr u \<Rightarrow> Inr u)"

text \<open>
  \<^verbatim>\<open>URLSearchParams\<close>: the query's name-value pairs in order; \<^verbatim>\<open>get\<close> returns the first
  value of the name, or \<^verbatim>\<open>null\<close>.
\<close>

type_synonym search_params = "(string \<times> string) list"

definition searchParams_get :: "search_params \<Rightarrow> string \<Rightarrow> string option" where
  "searchParams_get sp n = map_of sp n"

record validation =
  isValid :: bool
  params :: "(string \<times> string) list"
  missing :: "string list"

fun validate_loop :: "search_params \<Rightarrow> string list \<Rightarrow> (string \<times> string) list \<Rightarrow> string list
    \<Rightarrow> (string \<times> string) list \<times> string list" where
  \<comment> \<open>The \<^verbatim>\<open>for ... of requiredParams\<close> loop over \<open>(params, missing)\<close>.\<close>
  "validate_loop sp [] ps ms = (ps, ms)"
| "validate_loop sp (param # rest) ps ms =
     (let v = searchParams_get sp param in
      if \<not> truthy v then validate_loop sp rest ps (ms @ [param])
      else validate_loop sp rest (AList.update param (the v) ps) ms)"

definition validateQueryParams :: "search_params \<Rightarrow> string list \<Rightarrow> validation" where
  "validateQueryParams sp requiredParams =
     (case validate_loop sp requiredParams [] [] of
        (ps, ms) \<Rightarrow> \<lparr>isValid = (length ms = 0), params = ps, missing = ms\<rparr>)"

definition createParamErrorResponse :: "string list \<Rightarrow> response" where
  "createParamErrorResponse missingParams =
     new_Response
       (Some (JSON_stringify (JObject
          [(''error'', JString (''Missing required query parameters: '' @ join '', '' missingParams)),
           (''required'', JArray (map JString missingParams))])))
       400
       [(''Content-Type'', ''application/json'')]"

definition createUrlErrorResponse :: "js_error \<Rightarrow> response" where
  "createUrlErrorResponse error =
     new_Response (Some (JSON_stringify (JObject [(''error'', JString (message error))])))
       400 [(''Content-Type'', ''application/json'')]"

section \<open>CORS (src/middleware/cors.js)\<close>

definition CORS_HEADERS :: header_list where
  "CORS_HEADERS =
     [(''Access-Control-Allow-Origin'', ''*''),
      (''Access-Control-Allow-Methods'', ''GET, OPTIONS''),
      (''Access-Control-Allow-Headers'', ''Content-Type''),
      (''Access-Control-Max-Age'', ''86400'')]"

definition handleOptions :: response where
  "handleOptions = new_Response None 204 CORS_HEADERS"

definition addCorsHeaders :: "header_list \<Rightarrow> header_list" where
  \<comment> \<open>\<^verbatim>\<open>{ ...headers, ...CORS_HEADERS }\<close>: a later property of the same name replaces the value.\<close>
  "addCorsHeaders hs = fold (\<lambda>(k, v) acc. AList.update k v acc) CORS_HEADERS hs"

definition createCorsResponse :: "string option \<Rightarrow> header_list \<Rightarrow> response" where
  \<comment> \<open>The callers' options hold \<^verbatim>\<open>headers\<close> only, so the status is the default 200.\<close>
  "createCorsResponse b hs = new_Response b 200 (addCorsHeaders hs)"

section \<open>The handlers and the router\<close>

text \<open>
  A handler returns its response together with the URLs it has fetched, in order: the
  list is empty when it answered without any network request.
\<close>

definition text_of :: "response \<Rightarrow> string" where
  \<comment> \<open>\<^verbatim>\<open>await response.text()\<close>\<close>
  "text_of resp = (case body resp of None \<Rightarrow> [] | Some t \<Rightarrow> t)"

definition proxyM3U8 :: "url_api \<Rightarrow> fetch_api \<Rightarrow> string \<Rightarrow> search_params \<Rightarrow> response \<times> string list" where
  "proxyM3U8 URL fetch now searchParams =
     (let validation = validateQueryParams searchParams [''url'', ''ref''] in
      if \<not> isValid validation then (createParamErrorResponse (missing validation), [])
      else
        let m3u8Param = the (map_of (params validation) ''url'');
            refParam = the (map_of (params validation) ''ref'')
        in case parseUrl URL m3u8Param of
             Inl error \<Rightarrow> (createUrlErrorResponse error, [])
           | Inr m \<Rightarrow>
          (case parseUrl URL refParam of
             Inl error \<Rightarrow> (createUrlErrorResponse error, [])
           | Inr r \<Rightarrow>
          (let m3u8Url = href m; refUrl = href r in
           case createProxyHeaders URL (Some refUrl) None of
             Inl err \<Rightarrow> (createHttpErrorResponse now err ''proxy M3U8 playlist'', [])
           | Inr hs \<Rightarrow>
          (case fetchWithConfig fetch m3u8Url (Some hs) of
             Inl err \<Rightarrow> (createHttpErrorResponse now err ''proxy M3U8 playlist'', [m3u8Url])
           | Inr resp \<Rightarrow>
          (case processPlaylistContent URL (text_of resp) m3u8Url refUrl of
             Inl err \<Rightarrow> (createHttpErrorResponse now err ''proxy M3U8 playlist'', [m3u8Url])
           | Inr processedPlaylist \<Rightarrow>
               (createCorsResponse (Some processedPlaylist)
                  [(''Content-Type'', ''application/vnd.apple.mpegurl'')], [m3u8Url]))))))"

definition proxySegment :: "url_api \<Rightarrow> fetch_api \<Rightarrow> string \<Rightarrow> search_params \<Rightarrow> response \<times> string list" where
  "proxySegment URL fetch now searchParams =
     (let validation = validateQueryParams searchParams [''url'', ''ref''] in
      if \<not> isValid validation then (createParamErrorResponse (missing validation), [])
      else
        let segParam = the (map_of (params validation) ''url'');
            refParam = the (map_of (params validation) ''ref'')
        in case parseUrl URL segParam of
             Inl error \<Rightarrow> (createUrlErrorResponse error, [])
           | Inr sg \<Rightarrow>
          (case parseUrl URL refParam of
             Inl error \<Rightarrow> (createUrlErrorResponse error, [])
           | Inr r \<Rightarrow>
          (let segmentUrl = href sg; refUrl = href r in
           case createProxyHeaders URL (Some refUrl) None of
             Inl err \<Rightarrow> (createHttpErrorResponse now err ''fetch video segment'', [])
           | Inr hs \<Rightarrow>
          (case fetchWithConfig fetch segmentUrl (Some hs) of
             Inl err \<Rightarrow> (createHttpErrorResponse now err ''fetch video segment'', [segmentUrl])
           | Inr resp \<Rightarrow>
               (createCorsResponse (body resp)
                  (createSegmentHeaders (determineContentType resp segmentUrl)), [segmentUrl])))))"

record request =
  httpMethod :: string
  pathname :: string
  searchParams :: search_params

definition worker_fetch :: "url_api \<Rightarrow> fetch_api \<Rightarrow> string \<Rightarrow> request \<Rightarrow> response \<times> string list" where
  \<comment> \<open>The worker's \<^verbatim>\<open>fetch(request, env, ctx)\<close> of src/index.js; \<open>pathname\<close> and \<open>searchParams\<close>
      are those of \<^verbatim>\<open>new URL(request.url)\<close>.\<close>
  "worker_fetch URL fetch now req =
     (if httpMethod req = ''OPTIONS'' then (handleOptions, [])
      else if httpMethod req \<noteq> ''GET'' then
        (new_Response (Some ''Method not allowed'') 405 [(''Content-Type'', ''application/json'')], [])
      else if pathname req = ''/player/stream'' then proxyM3U8 URL fetch now (searchParams req)
      else if pathname req = ''/segment'' then proxySegment URL fetch now (searchParams req)
      else if pathname req = ''/'' \<or> pathname req = ''/health'' then
        (new_Response
           (Some (JSON_stringify (JObject
              [(''status'', JString ''ok''),
               (''service'', JString ''Video Proxy Worker''),
               (''endpoints'', JArray [JString ''/player/stream'', JString ''/segment''])])))
           200 [(''Content-Type'', ''application/json'')], [])
      else
        (new_Response
           (Some (JSON_stringify (JObject
              [(''error'', JString ''Not found''),
               (''available_endpoints'', JArray [JString ''/player/stream'', JString ''/segment''])])))
           404 [(''Content-Type'', ''application/json'')], []))"

section \<open>Facts about the string functions\<close>

lemma endsWith_iff_suffix: "endsWith s p \<longleftrightarrow> (\<exists>pre. s = pre @ p)"
proof
  assume "endsWith s p"
  then have "s = take (length s - length p) s @ p"
    by (metis append_take_drop_id endsWith_def)
  then show "\<exists>pre. s = pre @ p" ..
next
  assume "\<exists>pre. s = pre @ p"
  then show "endsWith s p"
    by (auto simp: endsWith_def)
qed


lemma lt10_cases: "n < 10 \<Longrightarrow> n \<in> {0, 1, 2, 3, 4, 5, 6, 7, 8, 9 :: nat}"
  by auto

lemma digit_in_digits: "n < 10 \<Longrightarrow> digit n \<in> set ''0123456789''"
  using lt10_cases [of n] by (auto simp: digit_def)

lemma dec_nonempty: "dec n \<noteq> []"
  by (subst dec.simps) simp

lemma hd_dec: "hd (dec n) \<in> set ''0123456789''"
proof (induction n rule: dec.induct)
  case (1 n)
  show ?case
  proof (cases "n < 10")
    case True
    then show ?thesis
      using digit_in_digits [of n] by (subst dec.simps) simp
  next
    case False
    then have "hd (dec n) = hd (dec (n div 10))"
      by (subst dec.simps) (simp add: dec_nonempty)
    with 1 False show ?thesis by simp
  qed
qed

lemma JSON_stringify_head:
  "JSON_stringify v \<noteq> [] \<and> hd (JSON_stringify v) \<in> set (''0123456789[{'' @ [CHR 0x22])"
proof (cases v)
  case (JString s)
  then show ?thesis by (simp add: quoteJSONString_def)
next
  case (JNumber n)
  then show ?thesis using hd_dec [of n] dec_nonempty [of n] by auto
next
  case (JArray vs)
  then show ?thesis by simp
next
  case (JObject kvs)
  then show ?thesis by simp
qed

lemma not_json_Method_not_allowed: "JSON_stringify v \<noteq> ''Method not allowed''"
proof
  assume "JSON_stringify v = ''Method not allowed''"
  then have "hd (JSON_stringify v) = CHR ''M''" by simp
  with JSON_stringify_head [of v] show False by simp
qed

lemma ts_m4s: "endsWith s ''.ts'' \<Longrightarrow> \<not> endsWith s ''.m4s''"
proof
  assume "endsWith s ''.ts''" and "endsWith s ''.m4s''"
  then obtain a b where "s = a @ ''.ts''" and "s = b @ ''.m4s''"
    by (auto simp: endsWith_iff_suffix)
  then have "rev (a @ ''.ts'') = rev (b @ ''.m4s'')" by simp
  then show False by simp
qed

lemma ts_webm: "endsWith s ''.ts'' \<Longrightarrow> \<not> endsWith s ''.webm''"
proof
  assume "endsWith s ''.ts''" and "endsWith s ''.webm''"
  then obtain a b where "s = a @ ''.ts''" and "s = b @ ''.webm''"
    by (auto simp: endsWith_iff_suffix)
  then have "rev (a @ ''.ts'') = rev (b @ ''.webm'')" by simp
  then show False by simp
qed

lemma m4s_webm: "endsWith s ''.m4s'' \<Longrightarrow> \<not> endsWith s ''.webm''"
proof
  assume "endsWith s ''.m4s''" and "endsWith s ''.webm''"
  then obtain a b where "s = a @ ''.m4s''" and "s = b @ ''.webm''"
    by (auto simp: endsWith_iff_suffix)
  then have "rev (a @ ''.m4s'') = rev (b @ ''.webm'')" by simp
  then show False by simp
qed

section \<open>Facts about the scan\<close>


lemma scan_step:
  "idx s < length lines \<Longrightarrow> loop_body URL b r lines s = Inr s' \<Longrightarrow>
   scan URL b r lines s = scan URL b r lines s'"
  by (subst scan.simps) simp

lemma scan_throw:
  "idx s < length lines \<Longrightarrow> loop_body URL b r lines s = Inl e \<Longrightarrow>
   scan URL b r lines s = Inl e"
  by (subst scan.simps) simp

lemma scan_done:
  "\<not> idx s < length lines \<Longrightarrow> scan URL b r lines s = Inr (out s)"
  by (subst scan.simps) simp










lemma scan_state_eta: "\<lparr>idx = idx t, out = out t\<rparr> = t"
  by simp

lemma loop_body_shift:
  assumes "k \<le> idx s" and "idx s < length lines" and "out s = pre @ ou"
  shows "loop_body URL b r lines s =
         (case loop_body URL b r (drop k lines) \<lparr>idx = idx s - k, out = ou\<rparr> of
            Inl e \<Rightarrow> Inl e
          | Inr t \<Rightarrow> Inr \<lparr>idx = idx t + k, out = pre @ out t\<rparr>)"
proof -
  let ?t = "\<lparr>idx = idx s - k, out = ou\<rparr>"
  have cur: "drop k lines ! idx ?t = lines ! idx s"
    using assms(1,2) by simp
  have inr: "idx ?t + 1 < length (drop k lines) \<longleftrightarrow> idx s + 1 < length lines"
    using assms(1,2) by auto
  have nxt: "idx s + 1 < length lines \<Longrightarrow> drop k lines ! (idx ?t + 1) = lines ! (idx s + 1)"
    using assms(1,2) by (simp add: add.commute add.left_commute)
  have unshift: "idx s - k + 2 + k = idx s + 2" "idx s - k + 1 + k = idx s + 1"
    using assms(1) by simp_all
  show ?thesis
  proof (cases "idx s + 1 < length lines")
    case True
    show ?thesis
      unfolding loop_body_def Let_def cur inr nxt [OF True]
      using True assms(3) unshift by (simp split: sum.splits)
  next
    case False
    show ?thesis
      unfolding loop_body_def Let_def cur inr
      using False assms(3) unshift by (simp split: sum.splits)
  qed
qed

lemma scan_shift:
  "k \<le> idx s \<Longrightarrow> out s = pre @ ou \<Longrightarrow>
   scan URL b r lines s =
   after_output pre (scan URL b r (drop k lines) \<lparr>idx = idx s - k, out = ou\<rparr>)"
proof (induction URL b r lines s arbitrary: ou rule: scan.induct)
  case (1 URL b r lines s)
  let ?t = "\<lparr>idx = idx s - k, out = ou\<rparr>"
  show ?case
  proof (cases "idx s < length lines")
    case False
    with "1.prems" show ?thesis
      by (simp add: scan_done after_output_def)
  next
    case True
    with "1.prems" have tlt: "idx ?t < length (drop k lines)" by auto
    note sh = loop_body_shift [OF "1.prems"(1) True "1.prems"(2), of URL b r]
    show ?thesis
    proof (cases "loop_body URL b r (drop k lines) ?t")
      case (Inl e)
      with sh have "loop_body URL b r lines s = Inl e" by simp
      with True Inl tlt show ?thesis
        by (simp add: scan_throw after_output_def)
    next
      case (Inr t')
      with sh have lb: "loop_body URL b r lines s = Inr \<lparr>idx = idx t' + k, out = pre @ out t'\<rparr>"
        by simp
      have "scan URL b r lines \<lparr>idx = idx t' + k, out = pre @ out t'\<rparr> =
            after_output pre (scan URL b r (drop k lines) t')"
        using "1.IH" [OF True lb, of "out t'"] by (simp add: scan_state_eta)
      with scan_step [OF True lb] scan_step [OF tlt Inr] show ?thesis
        by simp
    qed
  qed
qed

lemma scan_in_isolation:
  "scan URL b r lines s =
   after_output (out s) (scan URL b r (drop (idx s) lines) \<lparr>idx = 0, out = []\<rparr>)"
  using scan_shift [of "idx s" s "out s" "[]" URL b r lines] by simp



lemma scan_extends_output:
  assumes "scan URL b r lines s = Inr final"
  shows "\<exists>rest. final = out s @ rest"
  using assms scan_in_isolation [of URL b r lines s]
  by (auto simp: after_output_def split: sum.splits)







section \<open>The rewriter on a master playlist of one variant\<close>



section \<open>Bare URI lines\<close>




section \<open>A stream-info tag without its URI\<close>




section \<open>Two stream-info tags in a row\<close>





section \<open>The fetch client accepts the statuses 200 to 399\<close>

text \<open>
  C7. When the platform's fetch completes with a response, \<open>fetchWithConfig\<close> returns
  that response exactly when its status is in the interval [200, 400); for every other
  status it throws an \<^verbatim>\<open>Error\<close> whose message holds the status code and the status text.
\<close>

theorem fetchWithConfig_status_band:
  assumes "fetch url (requestHeaders opt_headers) = Inr resp"
  shows "fetchWithConfig fetch url opt_headers =
           (if 200 \<le> status resp \<and> status resp < 400 then Inr resp
            else Inl (JsError ''Error'' (''HTTP '' @ dec (status resp) @ '': '' @ statusText resp)))
         \<and> (fetchWithConfig fetch url opt_headers = Inr resp
              \<longleftrightarrow> 200 \<le> status resp \<and> status resp < 400)"
  using assms by (auto simp: fetchWithConfig_def)

theorem fetchWithConfig_status_band_witness:
  "fetchWithConfig (\<lambda>u hs. Inr \<lparr>status = 404, statusText = ''Not Found'', headers = [], body = None\<rparr>)
     ''https://cdn.example.com/seg001.ts'' None
   = Inl (JsError ''Error'' ''HTTP 404: Not Found'')
   \<and> fetchWithConfig (\<lambda>u hs. Inr \<lparr>status = 101, statusText = ''Switching Protocols'', headers = [], body = None\<rparr>)
     ''https://cdn.example.com/seg001.ts'' None
   = Inl (JsError ''Error'' ''HTTP 101: Switching Protocols'')
   \<and> fetchWithConfig (\<lambda>u hs. Inr \<lparr>status = 399, statusText = [], headers = [], body = Some ''x''\<rparr>)
     ''https://cdn.example.com/seg001.ts'' None
   = Inr \<lparr>status = 399, statusText = [], headers = [], body = Some ''x''\<rparr>"
proof -
  have d404: "dec 404 = ''404''" and d101: "dec 101 = ''101''"
    by code_simp+
  show ?thesis
    using fetchWithConfig_status_band
            [of "\<lambda>u hs. Inr \<lparr>status = 404, statusText = ''Not Found'', headers = [], body = None\<rparr>"
                "''https://cdn.example.com/seg001.ts''" None
                "\<lparr>status = 404, statusText = ''Not Found'', headers = [], body = None\<rparr>"]
          fetchWithConfig_status_band
            [of "\<lambda>u hs. Inr \<lparr>status = 101, statusText = ''Switching Protocols'', headers = [], body = None\<rparr>"
                "''https://cdn.example.com/seg001.ts''" None
                "\<lparr>status = 101, statusText = ''Switching Protocols'', headers = [], body = None\<rparr>"]
          fetchWithConfig_status_band
            [of "\<lambda>u hs. Inr \<lparr>status = 399, statusText = [], headers = [], body = Some ''x''\<rparr>"
                "''https://cdn.example.com/seg001.ts''" None
                "\<lparr>status = 399, statusText = [], headers = [], body = Some ''x''\<rparr>"]
    by (simp add: d404 d101)
qed

section \<open>The proxy headers\<close>



text \<open>
  The handlers call \<^verbatim>\<open>createProxyHeaders(refUrl)\<close> with the referer only: the target is then
  \<^verbatim>\<open>undefined\<close>, which the URL class reads as the text \<^verbatim>\<open>undefined\<close> and refuses.
\<close>

lemma createProxyHeaders_without_target:
  "URL ''undefined'' None = Inl e \<Longrightarrow> URL refUrl None = Inr r \<Longrightarrow>
   createProxyHeaders URL (Some refUrl) None = Inl e"
  by (simp add: createProxyHeaders_def ToString_def)

section \<open>The status of an error response\<close>

lemma startsWith_same_prefix: "startsWith (a @ s) (a @ p) = startsWith s p"
  by (simp add: startsWith_def)

lemma skip_to_first_char:
  "c \<notin> set pre \<Longrightarrow> includes_str (pre @ t) (c # p) = includes_str t (c # p)"
  by (induction pre) (auto simp: startsWith_def)

lemma set_dec: "set (dec n) \<subseteq> set ''0123456789''"
proof (induction n rule: dec.induct)
  case (1 n)
  show ?case
  proof (cases "n < 10")
    case True
    then show ?thesis
      using digit_in_digits [of n] by (subst dec.simps) simp
  next
    case False
    have "n mod 10 < 10" by simp
    from digit_in_digits [OF this] 1 False show ?thesis
      by (subst dec.simps) simp
  qed
qed

lemma of_char_digit: "n < 10 \<Longrightarrow> of_char (digit n) = 48 + n"
  using lt10_cases [of n] by (auto simp: digit_def)

lemma digit_inject: "a < 10 \<Longrightarrow> b < 10 \<Longrightarrow> digit a = digit b \<longleftrightarrow> a = b"
proof
  assume "a < 10" "b < 10" "digit a = digit b"
  then have "(of_char (digit a) :: nat) = of_char (digit b)" by simp
  with \<open>a < 10\<close> \<open>b < 10\<close> show "a = b" by (simp add: of_char_digit)
qed simp

lemma digit_not_colon: "n < 10 \<Longrightarrow> digit n \<noteq> CHR '':''"
  using lt10_cases [of n] by (auto simp: digit_def)

lemma dec1: "n < 10 \<Longrightarrow> dec n = [digit n]"
  by (subst dec.simps) simp

lemma dec2: "10 \<le> n \<Longrightarrow> n < 100 \<Longrightarrow> dec n = [digit (n div 10), digit (n mod 10)]"
  by (subst dec.simps) (simp add: dec1)

lemma div_100: "(n::nat) div 10 div 10 = n div 100"
  by (simp add: div_mult2_eq [symmetric])

lemma dec3:
  "100 \<le> n \<Longrightarrow> n < 1000 \<Longrightarrow> dec n = [digit (n div 100), digit (n div 10 mod 10), digit (n mod 10)]"
  by (subst dec.simps) (simp add: dec2 div_100)

lemma three_digits_eq:
  assumes "n div 100 = m div 100" and "n div 10 mod 10 = m div 10 mod 10" and "n mod 10 = m mod 10"
  shows "(n::nat) = m"
proof -
  have "n div 10 = n div 10 div 10 * 10 + n div 10 mod 10"
    by simp
  also have "\<dots> = m div 10 div 10 * 10 + m div 10 mod 10"
    using assms(1,2) by (simp only: div_100)
  also have "\<dots> = m div 10"
    by simp
  finally have tens: "n div 10 = m div 10" .
  have "n = n div 10 * 10 + n mod 10"
    by simp
  also have "\<dots> = m div 10 * 10 + m mod 10"
    using tens assms(3) by simp
  also have "\<dots> = m"
    by simp
  finally show ?thesis .
qed
lemma status_prefix:
  assumes "st < 1000" and "100 \<le> n" and "n < 1000"
  shows "startsWith (dec st @ '': '' @ txt) (dec n) \<longleftrightarrow> st = n"
proof -
  have n3: "dec n = [digit (n div 100), digit (n div 10 mod 10), digit (n mod 10)]"
    using assms by (simp add: dec3)
  have nd: "n div 100 < 10" "n div 10 mod 10 < 10" "n mod 10 < 10"
    using assms by simp_all
  consider "st < 10" | "10 \<le> st" "st < 100" | "100 \<le> st"
    by linarith
  then show ?thesis
  proof cases
    case 1
    then have "st \<noteq> n" using assms by simp
    moreover have "\<not> startsWith (dec st @ '': '' @ txt) (dec n)"
      using 1 digit_not_colon [OF nd(2)] by (auto simp: dec1 n3 startsWith_def)
    ultimately show ?thesis by simp
  next
    case 2
    then have "st \<noteq> n" using assms by simp
    moreover have "\<not> startsWith (dec st @ '': '' @ txt) (dec n)"
      using 2 digit_not_colon [OF nd(3)] by (auto simp: dec2 n3 startsWith_def)
    ultimately show ?thesis by simp
  next
    case 3
    have sd: "st div 100 < 10" "st div 10 mod 10 < 10" "st mod 10 < 10"
      using assms by simp_all
    have "startsWith (dec st @ '': '' @ txt) (dec n) \<longleftrightarrow>
          st div 100 = n div 100 \<and> st div 10 mod 10 = n div 10 mod 10 \<and> st mod 10 = n mod 10"
      using 3 assms(1)
      by (simp add: dec3 n3 startsWith_def digit_inject sd nd)
    also have "\<dots> \<longleftrightarrow> st = n"
      using three_digits_eq [of st n] by auto
    finally show ?thesis .
  qed
qed

lemma occurs_after_first_char:
  assumes "c \<notin> set rest"
  shows "includes_str (c # rest @ txt) (c # p) \<longleftrightarrow> startsWith (rest @ txt) p \<or> includes_str txt (c # p)"
proof -
  have "startsWith (c # rest @ txt) (c # p) = startsWith (rest @ txt) p"
    by (simp add: startsWith_def)
  moreover have "includes_str (rest @ txt) (c # p) = includes_str txt (c # p)"
    using assms by (rule skip_to_first_char)
  ultimately show ?thesis
    by simp
qed

lemma status_message_includes:
  assumes "st < 1000" and "100 \<le> n" and "n < 1000"
  shows "includes_str (''HTTP '' @ dec st @ '': '' @ txt) (''HTTP '' @ dec n)
         \<longleftrightarrow> st = n \<or> includes_str txt (''HTTP '' @ dec n)"
proof -
  have noH: "CHR ''H'' \<notin> set (''TTP '' @ dec st @ '': '')"
    using set_dec [of st] by auto
  have e1: "''HTTP '' @ dec st @ '': '' @ txt = CHR ''H'' # (''TTP '' @ dec st @ '': '') @ txt"
    and e2: "''HTTP '' @ dec n = CHR ''H'' # (''TTP '' @ dec n)"
    and e3: "(''TTP '' @ dec st @ '': '') @ txt = ''TTP '' @ (dec st @ '': '' @ txt)"
    by simp_all
  have "includes_str (CHR ''H'' # (''TTP '' @ dec st @ '': '') @ txt) (CHR ''H'' # (''TTP '' @ dec n))
        \<longleftrightarrow> startsWith ((''TTP '' @ dec st @ '': '') @ txt) (''TTP '' @ dec n)
            \<or> includes_str txt (CHR ''H'' # (''TTP '' @ dec n))"
    by (rule occurs_after_first_char [OF noH])
  also have "startsWith ((''TTP '' @ dec st @ '': '') @ txt) (''TTP '' @ dec n) \<longleftrightarrow> st = n"
    by (simp only: e3 startsWith_same_prefix status_prefix [OF assms])
  finally show ?thesis
    by (simp only: e1 e2)
qed

lemma status_patterns:
  "''HTTP 403'' = ''HTTP '' @ dec 403" "''HTTP 404'' = ''HTTP '' @ dec 404"
  "''HTTP 429'' = ''HTTP '' @ dec 429" "''HTTP 502'' = ''HTTP '' @ dec 502"
  "''HTTP 503'' = ''HTTP '' @ dec 503"
  by code_simp+

lemma status_message_pattern:
  assumes "st < 1000" and "\<not> includes_str txt (''HTTP '' @ dec n)" and "100 \<le> n" and "n < 1000"
  shows "includes_str (''HTTP '' @ dec st @ '': '' @ txt) (''HTTP '' @ dec n) \<longleftrightarrow> st = n"
  using status_message_includes [OF assms(1,3,4), of "txt"] assms(2) by simp

text \<open>
  C6, amended. The status of the JSON error response is read from the error's name and
  from the text of its message: 408 for an \<^verbatim>\<open>AbortError\<close>; otherwise 403, 404 or 429 when
  the message contains \<^verbatim>\<open>HTTP 403\<close>, \<^verbatim>\<open>HTTP 404\<close> or \<^verbatim>\<open>HTTP 429\<close> (tested in this order), 502
  when it contains \<^verbatim>\<open>HTTP 502\<close> or \<^verbatim>\<open>HTTP 503\<close>, and 500 when it contains none of them. For
  the error the fetch client throws on an upstream status below 1000, whose message is
  \<^verbatim>\<open>HTTP <status>: <statusText>\<close>, and a status text that contains none of these five texts,
  this is: 403 to 403, 404 to 404, 429 to 429, 502 and 503 to 502, every other status to
  500. The body holds the fields error, message, status (the same status) and timestamp.
\<close>

theorem createHttpErrorResponse_status_from_message:
  "status (createHttpErrorResponse now error operation) = httpErrorStatus error
   \<and> body (createHttpErrorResponse now error operation) =
       Some (JSON_stringify (JObject
         [(''error'', JString (''Failed to '' @ operation)),
          (''message'', JString (message error)),
          (''status'', JNumber (httpErrorStatus error)),
          (''timestamp'', JString now)]))
   \<and> (name error = ''AbortError'' \<longrightarrow> httpErrorStatus error = 408)
   \<and> (name error \<noteq> ''AbortError''
        \<and> message error = ''HTTP '' @ dec st @ '': '' @ txt \<and> st < 1000
        \<and> \<not> includes_str txt ''HTTP 403'' \<and> \<not> includes_str txt ''HTTP 404''
        \<and> \<not> includes_str txt ''HTTP 429'' \<and> \<not> includes_str txt ''HTTP 502''
        \<and> \<not> includes_str txt ''HTTP 503''
      \<longrightarrow> httpErrorStatus error =
            (if st = 403 then 403 else if st = 404 then 404 else if st = 429 then 429
             else if st = 502 \<or> st = 503 then 502 else 500))
   \<and> (name error \<noteq> ''AbortError''
        \<and> \<not> includes_str (message error) ''HTTP 403'' \<and> \<not> includes_str (message error) ''HTTP 404''
        \<and> \<not> includes_str (message error) ''HTTP 429'' \<and> \<not> includes_str (message error) ''HTTP 502''
        \<and> \<not> includes_str (message error) ''HTTP 503''
      \<longrightarrow> httpErrorStatus error = 500)"
proof (intro conjI impI)
  show "status (createHttpErrorResponse now error operation) = httpErrorStatus error"
    by (simp add: createHttpErrorResponse_def new_Response_def Let_def)
  show "body (createHttpErrorResponse now error operation) =
       Some (JSON_stringify (JObject
         [(''error'', JString (''Failed to '' @ operation)),
          (''message'', JString (message error)),
          (''status'', JNumber (httpErrorStatus error)),
          (''timestamp'', JString now)]))"
    by (simp only: createHttpErrorResponse_def new_Response_def Let_def response.simps)
  show "httpErrorStatus error = 408" if "name error = ''AbortError''"
    using that by (simp add: httpErrorStatus_def)
next
  assume h: "name error \<noteq> ''AbortError''
        \<and> message error = ''HTTP '' @ dec st @ '': '' @ txt \<and> st < 1000
        \<and> \<not> includes_str txt ''HTTP 403'' \<and> \<not> includes_str txt ''HTTP 404''
        \<and> \<not> includes_str txt ''HTTP 429'' \<and> \<not> includes_str txt ''HTTP 502''
        \<and> \<not> includes_str txt ''HTTP 503''"
  then have st: "st < 1000" and msg: "message error = ''HTTP '' @ dec st @ '': '' @ txt"
    and nm: "name error \<noteq> ''AbortError''"
    by simp_all
  have p403: "includes_str (message error) ''HTTP 403'' \<longleftrightarrow> st = 403"
    unfolding msg status_patterns
    by (rule status_message_pattern [OF st]) (use h in \<open>simp_all only: status_patterns [symmetric]\<close>, simp_all)
  have p404: "includes_str (message error) ''HTTP 404'' \<longleftrightarrow> st = 404"
    unfolding msg status_patterns
    by (rule status_message_pattern [OF st]) (use h in \<open>simp_all only: status_patterns [symmetric]\<close>, simp_all)
  have p429: "includes_str (message error) ''HTTP 429'' \<longleftrightarrow> st = 429"
    unfolding msg status_patterns
    by (rule status_message_pattern [OF st]) (use h in \<open>simp_all only: status_patterns [symmetric]\<close>, simp_all)
  have p502: "includes_str (message error) ''HTTP 502'' \<longleftrightarrow> st = 502"
    unfolding msg status_patterns
    by (rule status_message_pattern [OF st]) (use h in \<open>simp_all only: status_patterns [symmetric]\<close>, simp_all)
  have p503: "includes_str (message error) ''HTTP 503'' \<longleftrightarrow> st = 503"
    unfolding msg status_patterns
    by (rule status_message_pattern [OF st]) (use h in \<open>simp_all only: status_patterns [symmetric]\<close>, simp_all)
  show "httpErrorStatus error =
            (if st = 403 then 403 else if st = 404 then 404 else if st = 429 then 429
             else if st = 502 \<or> st = 503 then 502 else 500)"
    unfolding httpErrorStatus_def p403 p404 p429 p502 p503 using nm by simp
next
  assume "name error \<noteq> ''AbortError''
        \<and> \<not> includes_str (message error) ''HTTP 403'' \<and> \<not> includes_str (message error) ''HTTP 404''
        \<and> \<not> includes_str (message error) ''HTTP 429'' \<and> \<not> includes_str (message error) ''HTTP 502''
        \<and> \<not> includes_str (message error) ''HTTP 503''"
  then show "httpErrorStatus error = 500"
    by (simp only: httpErrorStatus_def) simp
qed

theorem createHttpErrorResponse_status_from_message_witness:
  "status (createHttpErrorResponse ''2024-01-01T00:00:00.000Z''
     (JsError ''Error'' ''HTTP 404: Not Found'') ''fetch video segment'') = 404
   \<and> status (createHttpErrorResponse ''2024-01-01T00:00:00.000Z''
     (JsError ''Error'' ''HTTP 503: Service Unavailable'') ''fetch video segment'') = 502
   \<and> status (createHttpErrorResponse ''2024-01-01T00:00:00.000Z''
     (JsError ''AbortError'' ''The operation was aborted'') ''fetch video segment'') = 408
   \<and> status (createHttpErrorResponse ''2024-01-01T00:00:00.000Z''
     (JsError ''TypeError'' ''fetch failed'') ''fetch video segment'') = 500"
proof -
  let ?now = "''2024-01-01T00:00:00.000Z''"
  let ?op = "''fetch video segment''"
  let ?e404 = "JsError ''Error'' ''HTTP 404: Not Found''"
  let ?e503 = "JsError ''Error'' ''HTTP 503: Service Unavailable''"
  let ?abort = "JsError ''AbortError'' ''The operation was aborted''"
  let ?net = "JsError ''TypeError'' ''fetch failed''"
  have h404: "name ?e404 \<noteq> ''AbortError''
        \<and> message ?e404 = ''HTTP '' @ dec 404 @ '': '' @ ''Not Found'' \<and> (404::nat) < 1000
        \<and> \<not> includes_str ''Not Found'' ''HTTP 403'' \<and> \<not> includes_str ''Not Found'' ''HTTP 404''
        \<and> \<not> includes_str ''Not Found'' ''HTTP 429'' \<and> \<not> includes_str ''Not Found'' ''HTTP 502''
        \<and> \<not> includes_str ''Not Found'' ''HTTP 503''"
    by code_simp
  have h503: "name ?e503 \<noteq> ''AbortError''
        \<and> message ?e503 = ''HTTP '' @ dec 503 @ '': '' @ ''Service Unavailable'' \<and> (503::nat) < 1000
        \<and> \<not> includes_str ''Service Unavailable'' ''HTTP 403''
        \<and> \<not> includes_str ''Service Unavailable'' ''HTTP 404''
        \<and> \<not> includes_str ''Service Unavailable'' ''HTTP 429''
        \<and> \<not> includes_str ''Service Unavailable'' ''HTTP 502''
        \<and> \<not> includes_str ''Service Unavailable'' ''HTTP 503''"
    by code_simp
  have hab: "name ?abort = ''AbortError''"
    by simp
  have hnet: "name ?net \<noteq> ''AbortError''
        \<and> \<not> includes_str (message ?net) ''HTTP 403'' \<and> \<not> includes_str (message ?net) ''HTTP 404''
        \<and> \<not> includes_str (message ?net) ''HTTP 429'' \<and> \<not> includes_str (message ?net) ''HTTP 502''
        \<and> \<not> includes_str (message ?net) ''HTTP 503''"
    by code_simp
  note t404 = createHttpErrorResponse_status_from_message [of ?now ?e404 ?op 404 "''Not Found''"]
  note t503 = createHttpErrorResponse_status_from_message [of ?now ?e503 ?op 503 "''Service Unavailable''"]
  note tab = createHttpErrorResponse_status_from_message [of ?now ?abort ?op 0 "[]"]
  note tnet = createHttpErrorResponse_status_from_message [of ?now ?net ?op 0 "[]"]
  have a: "status (createHttpErrorResponse ?now ?e404 ?op) = 404"
    using t404 [THEN conjunct1] t404 [THEN conjunct2, THEN conjunct2, THEN conjunct2, THEN conjunct1, rule_format, OF h404]
    by simp
  have b: "status (createHttpErrorResponse ?now ?e503 ?op) = 502"
    using t503 [THEN conjunct1] t503 [THEN conjunct2, THEN conjunct2, THEN conjunct2, THEN conjunct1, rule_format, OF h503]
    by simp
  have c: "status (createHttpErrorResponse ?now ?abort ?op) = 408"
    using tab [THEN conjunct1] tab [THEN conjunct2, THEN conjunct2, THEN conjunct1, rule_format, OF hab]
    by simp
  have d: "status (createHttpErrorResponse ?now ?net ?op) = 500"
    using tnet [THEN conjunct1] tnet [THEN conjunct2, THEN conjunct2, THEN conjunct2, THEN conjunct2, rule_format, OF hnet]
    by simp
  from a b c d show ?thesis by blast
qed

text \<open>
  As C6 is written it fails for an upstream error whose status text holds one of the
  five texts: the status 500 with the status text \<^verbatim>\<open>HTTP 404\<close> is answered with 404.
\<close>

theorem status_text_names_another_status_counterexample:
  "fetchWithConfig
     (\<lambda>u hs. Inr \<lparr>status = 500, statusText = ''HTTP 404'', headers = [], body = None\<rparr>)
     ''https://cdn.example.com/seg001.ts'' None
   = Inl (JsError ''Error'' ''HTTP 500: HTTP 404'')
   \<and> status (createHttpErrorResponse ''2024-01-01T00:00:00.000Z''
        (JsError ''Error'' ''HTTP 500: HTTP 404'') ''fetch video segment'') = 404"
  by code_simp

section \<open>Missing query parameters\<close>






section \<open>The content type of a segment response\<close>

text \<open>
  C10, amended. The content type of a segment response is the upstream content-type
  header whenever that header is present and not empty. When the header is absent or
  empty it is video/MP2T, video/mp4 or video/webm exactly when the whole segment URL
  string (its query string included) ends with .ts, .m4s or .webm, and
  application/octet-stream in every other case; so for
  https://cdn.example.com/seg001.ts?token=x it is application/octet-stream.
\<close>

theorem determineContentType_by_header_or_suffix:
  "(\<forall>ct. headers_get (headers resp) ''content-type'' = Some ct \<and> ct \<noteq> []
          \<longrightarrow> determineContentType resp segmentUrl = ct)
   \<and> (\<not> truthy (headers_get (headers resp) ''content-type'') \<longrightarrow>
        (determineContentType resp segmentUrl = ''video/MP2T'' \<longleftrightarrow> (\<exists>pre. segmentUrl = pre @ ''.ts''))
      \<and> (determineContentType resp segmentUrl = ''video/mp4'' \<longleftrightarrow> (\<exists>pre. segmentUrl = pre @ ''.m4s''))
      \<and> (determineContentType resp segmentUrl = ''video/webm'' \<longleftrightarrow> (\<exists>pre. segmentUrl = pre @ ''.webm''))
      \<and> (determineContentType resp segmentUrl = ''application/octet-stream'' \<longleftrightarrow>
            \<not> (\<exists>pre. segmentUrl = pre @ ''.ts'') \<and> \<not> (\<exists>pre. segmentUrl = pre @ ''.m4s'')
            \<and> \<not> (\<exists>pre. segmentUrl = pre @ ''.webm'')))
   \<and> (\<not> truthy (headers_get (headers resp) ''content-type'') \<longrightarrow>
        determineContentType resp ''https://cdn.example.com/seg001.ts?token=x'' = ''application/octet-stream'')"
proof (intro conjI allI impI)
  fix ct
  assume "headers_get (headers resp) ''content-type'' = Some ct \<and> ct \<noteq> []"
  then show "determineContentType resp segmentUrl = ct"
    by (simp add: determineContentType_def truthy_def)
next
  assume h: "\<not> truthy (headers_get (headers resp) ''content-type'')"
  have d: "determineContentType resp segmentUrl =
      (if endsWith segmentUrl ''.ts'' then ''video/MP2T''
       else if endsWith segmentUrl ''.m4s'' then ''video/mp4''
       else if endsWith segmentUrl ''.webm'' then ''video/webm''
       else ''application/octet-stream'')"
    using h by (simp add: determineContentType_def)
  show "determineContentType resp segmentUrl = ''video/MP2T'' \<longleftrightarrow> (\<exists>pre. segmentUrl = pre @ ''.ts'')"
    unfolding d endsWith_iff_suffix [symmetric] by simp
  show "determineContentType resp segmentUrl = ''video/mp4'' \<longleftrightarrow> (\<exists>pre. segmentUrl = pre @ ''.m4s'')"
    unfolding d endsWith_iff_suffix [symmetric] using ts_m4s [of segmentUrl] by auto
  show "determineContentType resp segmentUrl = ''video/webm'' \<longleftrightarrow> (\<exists>pre. segmentUrl = pre @ ''.webm'')"
    unfolding d endsWith_iff_suffix [symmetric]
    using ts_webm [of segmentUrl] m4s_webm [of segmentUrl] by auto
  show "determineContentType resp segmentUrl = ''application/octet-stream'' \<longleftrightarrow>
            \<not> (\<exists>pre. segmentUrl = pre @ ''.ts'') \<and> \<not> (\<exists>pre. segmentUrl = pre @ ''.m4s'')
            \<and> \<not> (\<exists>pre. segmentUrl = pre @ ''.webm'')"
    unfolding d endsWith_iff_suffix [symmetric] by simp
next
  assume h: "\<not> truthy (headers_get (headers resp) ''content-type'')"
  have "\<not> endsWith ''https://cdn.example.com/seg001.ts?token=x'' ''.ts''"
    and "\<not> endsWith ''https://cdn.example.com/seg001.ts?token=x'' ''.m4s''"
    and "\<not> endsWith ''https://cdn.example.com/seg001.ts?token=x'' ''.webm''"
    by (simp_all add: endsWith_def)
  with h show "determineContentType resp ''https://cdn.example.com/seg001.ts?token=x'' = ''application/octet-stream''"
    by (simp add: determineContentType_def)
qed

theorem determineContentType_by_header_or_suffix_witness:
  "determineContentType
     \<lparr>status = 200, statusText = ''OK'', headers = [(''Content-Type'', ''video/mp4'')], body = Some []\<rparr>
     ''https://cdn.example.com/seg001.ts'' = ''video/mp4''
   \<and> determineContentType \<lparr>status = 200, statusText = ''OK'', headers = [], body = Some []\<rparr>
     ''https://cdn.example.com/init.m4s'' = ''video/mp4''
   \<and> determineContentType \<lparr>status = 200, statusText = ''OK'', headers = [], body = Some []\<rparr>
     ''https://cdn.example.com/seg001.ts?token=x'' = ''application/octet-stream''"
proof -
  let ?R1 = "\<lparr>status = 200, statusText = ''OK'', headers = [(''Content-Type'', ''video/mp4'')], body = Some []\<rparr>"
  let ?R0 = "\<lparr>status = 200, statusText = ''OK'', headers = [], body = Some []\<rparr>"
  have h1: "headers_get (headers ?R1) ''content-type'' = Some ''video/mp4''"
    by code_simp
  have h0: "\<not> truthy (headers_get (headers ?R0) ''content-type'')"
    by (simp add: headers_get_def truthy_def)
  have e: "\<exists>pre. ''https://cdn.example.com/init.m4s'' = pre @ ''.m4s''"
    by (rule exI [of _ "''https://cdn.example.com/init''"]) simp
  have a: "determineContentType ?R1 ''https://cdn.example.com/seg001.ts'' = ''video/mp4''"
    using determineContentType_by_header_or_suffix [of ?R1 "''https://cdn.example.com/seg001.ts''"] h1
    by simp
  have b: "determineContentType ?R0 ''https://cdn.example.com/init.m4s'' = ''video/mp4''"
    using determineContentType_by_header_or_suffix [of ?R0 "''https://cdn.example.com/init.m4s''"] h0 e
    by blast
  have c: "determineContentType ?R0 ''https://cdn.example.com/seg001.ts?token=x'' = ''application/octet-stream''"
    using determineContentType_by_header_or_suffix [of ?R0 "''https://cdn.example.com/init.m4s''"] h0
    by blast
  from a b c show ?thesis by blast
qed

text \<open>
  As C10 is written it fails when the upstream sends the header with an empty value:
  the header is present, and the type still comes from the URL's suffix.
\<close>

theorem determineContentType_empty_header_counterexample:
  "headers_get [(''Content-Type'', [])] ''content-type'' = Some []
   \<and> determineContentType
       \<lparr>status = 200, statusText = ''OK'', headers = [(''Content-Type'', [])], body = Some []\<rparr>
       ''https://cdn.example.com/seg001.ts'' = ''video/MP2T''"
  by code_simp

section \<open>The router's answer to the other methods\<close>

lemma worker_fetch_OPTIONS:
  "worker_fetch URL fetch now \<lparr>httpMethod = ''OPTIONS'', pathname = p, searchParams = sp\<rparr>
   = (\<lparr>status = 204, statusText = [], headers = CORS_HEADERS, body = None\<rparr>, [])"
  by (simp add: worker_fetch_def handleOptions_def new_Response_def)

text \<open>
  C9. A request whose method is neither GET nor OPTIONS, here POST, gets the status 405
  and the content type application/json, without any network request; the body is the
  plain text \<^verbatim>\<open>Method not allowed\<close>, which is the serialisation of no JSON value.
\<close>

theorem worker_fetch_POST_body_is_not_JSON:
  "worker_fetch URL fetch now \<lparr>httpMethod = ''POST'', pathname = p, searchParams = sp\<rparr>
   = (\<lparr>status = 405, statusText = [], headers = [(''Content-Type'', ''application/json'')],
       body = Some ''Method not allowed''\<rparr>, [])
   \<and> (\<forall>v. JSON_stringify v \<noteq> ''Method not allowed'')"
  by (simp add: worker_fetch_def new_Response_def not_json_Method_not_allowed)

end
